theory Spec2Isabelle
  imports Main "HOL-Library.Word" "HOL-Library.Char_ord" "HOL-Library.List_Lexorder"
begin

section \<open>Values of the host language\<close>

text \<open>
  A Python \<open>str\<close> is represented by the bytes of its UTF-8 text, which is what
  \<open>string\<close> holds; \<open>bytes\<close> are lists of 8-bit words.
\<close>

type_synonym byte = "8 word"
type_synonym bytes = "byte list"

datatype error = TypeError | AttributeError | ValueError | OverflowError

subsection \<open>datetime and timedelta\<close>

text \<open>
  A naive UTC \<open>datetime\<close> is a number of microseconds since 1970-01-01 within the range of
  the datetime library, from 0001-01-01 00:00:00 (\<open>dt_min\<close>) to 9999-12-31 23:59:59.999999
  (\<open>dt_max\<close>). \<open>timedelta(seconds=n)\<close> is a number of microseconds; its constructor raises
  \<open>OverflowError\<close> when the day count \<open>n // 86400\<close> exceeds 999999999 in magnitude.
  Adding a timedelta to a datetime raises \<open>OverflowError\<close> when the result leaves the
  range.
\<close>

definition dt_min :: int where
  "dt_min = - 62135596800000000"

definition dt_max :: int where
  "dt_max = 253402300799999999"

definition in_range :: "int \<Rightarrow> bool" where
  "in_range us = (dt_min \<le> us \<and> us \<le> dt_max)"

typedef datetime = "{us. in_range us}"
  morphisms micros datetime_of
  by (rule exI [of _ 0]) (simp add: in_range_def dt_min_def dt_max_def)

definition timedelta :: "int \<Rightarrow> error + int" where
  "timedelta seconds =
     (if - 999999999 \<le> seconds div 86400 \<and> seconds div 86400 \<le> 999999999
      then Inr (seconds * 1000000) else Inl OverflowError)"

definition dt_add :: "datetime \<Rightarrow> int \<Rightarrow> error + datetime" where
  "dt_add d delta =
     (if in_range (micros d + delta) then Inr (datetime_of (micros d + delta))
      else Inl OverflowError)"

text \<open>\<open>d + timedelta(seconds=n)\<close> and \<open>d - timedelta(seconds=n)\<close>.\<close>

definition plus_seconds :: "datetime \<Rightarrow> int \<Rightarrow> error + datetime" where
  "plus_seconds d n = (case timedelta n of Inl e \<Rightarrow> Inl e | Inr delta \<Rightarrow> dt_add d delta)"

definition minus_seconds :: "datetime \<Rightarrow> int \<Rightarrow> error + datetime" where
  "minus_seconds d n = (case timedelta n of Inl e \<Rightarrow> Inl e | Inr delta \<Rightarrow> dt_add d (- delta))"

definition encode_utf8 :: "string \<Rightarrow> bytes" where
  "encode_utf8 s = map of_char s"

text \<open>Decoding is only ever applied to the ASCII output of \<open>b64encode\<close>, where it is bytewise.\<close>

definition decode_utf8 :: "bytes \<Rightarrow> string" where
  "decode_utf8 bs = map (\<lambda>b. char_of (unat b)) bs"

text \<open>The values \<open>to_dict\<close> and \<open>to_collection_dict\<close> build; a dict keeps insertion order.\<close>

datatype pyval =
    PNone
  | PBool bool
  | PInt int
  | PStr string
  | PList "pyval list"
  | PDict "(string \<times> pyval) list"

fun truthy :: "pyval \<Rightarrow> bool" where
  "truthy PNone = False"
| "truthy (PBool b) = b"
| "truthy (PInt i) = (i \<noteq> 0)"
| "truthy (PStr s) = (s \<noteq> [])"
| "truthy (PList xs) = (xs \<noteq> [])"
| "truthy (PDict kvs) = (kvs \<noteq> [])"

fun opt_str :: "string option \<Rightarrow> pyval" where
  "opt_str None = PNone"
| "opt_str (Some s) = PStr s"

fun opt_int :: "int option \<Rightarrow> pyval" where
  "opt_int None = PNone"
| "opt_int (Some i) = PInt i"

definition keys :: "pyval \<Rightarrow> string list" where
  "keys d = (case d of PDict kvs \<Rightarrow> map fst kvs | _ \<Rightarrow> [])"

definition get_item :: "pyval \<Rightarrow> string \<Rightarrow> pyval option" where
  "get_item d k = (case d of PDict kvs \<Rightarrow> map_of kvs k | _ \<Rightarrow> None)"

section \<open>base64.b64encode\<close>

definition b64_alphabet :: string where
  "b64_alphabet = ''ABCDEFGHIJKLMNOPQRSTUVWXYZabcdefghijklmnopqrstuvwxyz0123456789+/''"

definition b64_digit :: "nat \<Rightarrow> byte" where
  "b64_digit i = of_char (b64_alphabet ! i)"

definition b64_pad :: byte where
  "b64_pad = of_char CHR ''=''"

fun b64encode :: "bytes \<Rightarrow> bytes" where
  "b64encode (a # b # c # rest) =
     [b64_digit (unat a div 4),
      b64_digit (unat a mod 4 * 16 + unat b div 16),
      b64_digit (unat b mod 16 * 4 + unat c div 64),
      b64_digit (unat c mod 64)] @ b64encode rest"
| "b64encode [a, b] =
     [b64_digit (unat a div 4),
      b64_digit (unat a mod 4 * 16 + unat b div 16),
      b64_digit (unat b mod 16 * 4),
      b64_pad]"
| "b64encode [a] =
     [b64_digit (unat a div 4),
      b64_digit (unat a mod 4 * 16),
      b64_pad,
      b64_pad]"
| "b64encode [] = []"

section \<open>Schema\<close>

text \<open>
  A row of \<open>flicket_users\<close>, which is also the attribute state of a \<open>FlicketUser\<close>
  object. Columns the constructor does not set are nullable; the primary key is absent
  until the object has been flushed.
\<close>

record FlicketUser =
  user_id :: "int option"
  username :: string
  name :: string
  password :: bytes
  email :: string
  date_added :: datetime
  date_modified :: "datetime option"
  job_title :: "string option"
  avatar :: "string option"
  total_posts :: "int option"
  token :: "string option"
  token_expiration :: "datetime option"

definition FlicketUser_init ::
  "string \<Rightarrow> string \<Rightarrow> string \<Rightarrow> bytes \<Rightarrow> datetime \<Rightarrow> string option \<Rightarrow> FlicketUser" where
  "FlicketUser_init usern nm eml pw added title =
     \<lparr>user_id = None, username = usern, name = nm, password = pw, email = eml,
      date_added = added, date_modified = None, job_title = title, avatar = None,
      total_posts = None, token = None, token_expiration = None\<rparr>"

record FlicketGroup =
  group_id :: int
  group_name :: string

text \<open>
  The three tables, each in the order in which an unordered query returns its rows.
  \<open>flicket_groups\<close> is the join table of pairs (user_id, group_id).
\<close>

record database =
  flicket_users :: "FlicketUser list"
  flicket_group :: "FlicketGroup list"
  flicket_groups :: "(int \<times> int) list"

subsection \<open>The query interface used by the model methods\<close>

definition filter_by :: "('r \<Rightarrow> 'v) \<Rightarrow> 'v \<Rightarrow> 'r list \<Rightarrow> 'r list" where
  "filter_by col v rows = filter (\<lambda>r. col r = v) rows"

definition first :: "'r list \<Rightarrow> 'r option" where
  "first rows = (case rows of [] \<Rightarrow> None | r # _ \<Rightarrow> Some r)"

definition count_rows :: "'r list \<Rightarrow> int" where
  "count_rows rows = int (length rows)"

text \<open>
  The backref \<open>user.flicket_groups\<close>: the groups joined to the user through the join
  table, ordered by group name.
\<close>

definition user_flicket_groups :: "database \<Rightarrow> FlicketUser \<Rightarrow> FlicketGroup list" where
  "user_flicket_groups db user =
     (case user_id user of
        None \<Rightarrow> []
      | Some i \<Rightarrow>
          sort_key group_name
            (concat (map (\<lambda>(u, g). if u = i then filter_by group_id g (flicket_group db) else [])
                         (flicket_groups db))))"

section \<open>FlicketUser\<close>

subsection \<open>is_admin\<close>

fun is_admin_loop :: "string \<Rightarrow> FlicketGroup list \<Rightarrow> pyval" where
  "is_admin_loop admin [] = PNone"
| "is_admin_loop admin (g # gs) =
     (if group_name g = admin then PBool True else is_admin_loop admin gs)"

text \<open>
  The configured name \<open>app.config['ADMIN_GROUP_NAME']\<close> is a parameter. When the
  re-fetch by id finds no row, \<open>first()\<close> yields \<open>None\<close> and the attribute access on it
  raises \<open>AttributeError\<close>.
\<close>

definition is_admin :: "string \<Rightarrow> database \<Rightarrow> FlicketUser \<Rightarrow> error + pyval" where
  "is_admin ADMIN_GROUP_NAME db self =
     (case first (filter_by user_id (user_id self) (flicket_users db)) of
        None \<Rightarrow> Inl AttributeError
      | Some user \<Rightarrow> Inr (is_admin_loop ADMIN_GROUP_NAME (user_flicket_groups db user)))"

subsection \<open>check_password\<close>

text \<open>
  \<open>bcrypt.hashpw\<close> is a parameter: a function of the password bytes and the salt that
  returns the digest or raises.
\<close>

definition check_password ::
  "(bytes \<Rightarrow> bytes \<Rightarrow> error + bytes) \<Rightarrow> database \<Rightarrow> FlicketUser \<Rightarrow> string \<Rightarrow> error + bool" where
  "check_password hashpw db self pw =
     (let result = filter_by username (username self) (flicket_users db) in
      if count_rows result = 0 then Inr False
      else
        (case first result of
           None \<Rightarrow> Inl AttributeError
         | Some row \<Rightarrow>
             (case hashpw (encode_utf8 pw) (password row) of
                Inl e \<Rightarrow> Inl e
              | Inr h \<Rightarrow> if h \<noteq> password row then Inr False else Inr True)))"

subsection \<open>to_dict\<close>

text \<open>\<open>url_for\<close> is a parameter: endpoint name and keyword arguments to URL.\<close>

type_synonym url_for = "string \<Rightarrow> (string \<times> pyval) list \<Rightarrow> string"

definition to_dict :: "url_for \<Rightarrow> FlicketUser \<Rightarrow> pyval" where
  "to_dict url_for self =
     PDict
       [(''id'', opt_int (user_id self)),
        (''username'', PStr (username self)),
        (''name'', PStr (name self)),
        (''email'', PStr (email self)),
        (''job_title'', if truthy (opt_str (job_title self)) then opt_str (job_title self)
                        else PStr ''unknown''),
        (''total_posts'', opt_int (total_posts self)),
        (''links'',
           PDict [(''self'', PStr (url_for ''bp_api_v2.get_user''
                                      [(''id'', opt_int (user_id self))]))])]"

subsection \<open>get_token, revoke_token, check_token\<close>

text \<open>
  \<open>db.session\<close> holds objects, not copies of them: it is modelled as the set of the
  identities of the registered objects, and \<open>add\<close> of an object that is already registered
  changes nothing. A method that mutates \<open>self\<close> takes the identity \<open>oid\<close> of the object
  and its attribute state, and returns its outcome (the value, or the exception raised)
  together with the attribute state and the session as the call leaves them.

  \<open>get_token\<close> reads the clock once (\<open>now\<close>) and draws \<open>os.urandom(24)\<close> (\<open>rnd\<close>). For a
  truthy token it computes \<open>now + timedelta(seconds=60)\<close>, which may raise
  \<open>OverflowError\<close>, and compares it with the expiration, which raises \<open>TypeError\<close> when the
  expiration is absent. \<open>mint_token\<close> is the part of \<open>get_token\<close> after the early return:
  the token is assigned first, so it stays assigned when the computation of the new
  expiration raises; then the expiration is assigned, the object added to the session and
  the new token returned.
\<close>

type_synonym oid = nat

definition mint_token ::
  "datetime \<Rightarrow> bytes \<Rightarrow> int \<Rightarrow> oid \<Rightarrow> FlicketUser \<Rightarrow> oid set
     \<Rightarrow> (error + string) \<times> FlicketUser \<times> oid set" where
  "mint_token now rnd expires_in self_id self session =
     (let self1 = self\<lparr>token := Some (decode_utf8 (b64encode rnd))\<rparr> in
      case plus_seconds now expires_in of
        Inl e \<Rightarrow> (Inl e, self1, session)
      | Inr expiration \<Rightarrow>
          (let self2 = self1\<lparr>token_expiration := Some expiration\<rparr>
           in (Inr (decode_utf8 (b64encode rnd)), self2, insert self_id session)))"

definition get_token ::
  "datetime \<Rightarrow> bytes \<Rightarrow> int \<Rightarrow> oid \<Rightarrow> FlicketUser \<Rightarrow> oid set
     \<Rightarrow> (error + string) \<times> FlicketUser \<times> oid set" where
  "get_token now rnd expires_in self_id self session =
     (case token self of
        None \<Rightarrow> mint_token now rnd expires_in self_id self session
      | Some t \<Rightarrow>
          if t = [] then mint_token now rnd expires_in self_id self session
          else
            (case plus_seconds now 60 of
               Inl e \<Rightarrow> (Inl e, self, session)
             | Inr limit \<Rightarrow>
                 (case token_expiration self of
                    None \<Rightarrow> (Inl TypeError, self, session)
                  | Some e \<Rightarrow>
                      if micros e > micros limit then (Inr t, self, session)
                      else mint_token now rnd expires_in self_id self session)))"

definition get_token_default ::
  "datetime \<Rightarrow> bytes \<Rightarrow> oid \<Rightarrow> FlicketUser \<Rightarrow> oid set
     \<Rightarrow> (error + string) \<times> FlicketUser \<times> oid set" where
  "get_token_default now rnd self_id self session = get_token now rnd 36000 self_id self session"

text \<open>\<open>revoke_token\<close> returns the mutated object, or the exception of the subtraction.\<close>

definition revoke_token :: "datetime \<Rightarrow> FlicketUser \<Rightarrow> error + FlicketUser" where
  "revoke_token now self =
     (case minus_seconds now 1 of
        Inl e \<Rightarrow> Inl e
      | Inr expiration \<Rightarrow> Inr (self\<lparr>token_expiration := Some expiration\<rparr>))"

definition check_token :: "datetime \<Rightarrow> database \<Rightarrow> string \<Rightarrow> error + FlicketUser option" where
  "check_token now db tok =
     (case first (filter_by token (Some tok) (flicket_users db)) of
        None \<Rightarrow> Inr None
      | Some user \<Rightarrow>
          (case token_expiration user of
             None \<Rightarrow> Inl TypeError
           | Some e \<Rightarrow> if micros e < micros now then Inr None else Inr (Some user)))"

text \<open>The data-model invariant: a stored token is paired with a non-null expiration.\<close>

definition token_paired :: "FlicketUser \<Rightarrow> bool" where
  "token_paired u = (token u = None \<or> token_expiration u \<noteq> None)"

section \<open>PaginatedAPIMixin\<close>

subsection \<open>The paginator the mixin calls\<close>

text \<open>
  \<open>query.paginate(page, per_page, False)\<close> of the ORM extension, with its third argument
  (\<open>error_out\<close>) false: a page below 1 is read as page 1, a negative page size as 20, the
  items are the slice \<open>limit(per_page).offset((page - 1) * per_page)\<close> of the query's rows,
  and the total is the row count (on a short first page, the number of items fetched).
  \<open>pages\<close> is the ceiling of total / per_page, 0 for a page size of 0.
\<close>

record 'a Pagination =
  pg_page :: int
  pg_per_page :: int
  pg_total :: int
  pg_items :: "'a list"

definition paginate :: "'a list \<Rightarrow> int \<Rightarrow> int \<Rightarrow> 'a Pagination" where
  "paginate query page per_page =
     (let page1 = (if page < 1 then 1 else page);
          per_page1 = (if per_page < 0 then 20 else per_page);
          items = take (nat per_page1) (drop (nat ((page1 - 1) * per_page1)) query);
          total = (if page1 = 1 \<and> int (length items) < per_page1 then int (length items)
                   else count_rows query)
      in \<lparr>pg_page = page1, pg_per_page = per_page1, pg_total = total, pg_items = items\<rparr>)"

definition pages :: "'a Pagination \<Rightarrow> int" where
  "pages p = (if pg_per_page p = 0 then 0 else - ((- pg_total p) div pg_per_page p))"

definition has_prev :: "'a Pagination \<Rightarrow> bool" where
  "has_prev p = (pg_page p > 1)"

definition has_next :: "'a Pagination \<Rightarrow> bool" where
  "has_next p = (pg_page p < pages p)"

subsection \<open>to_collection_dict\<close>

text \<open>
  The item's own \<open>to_dict\<close> method is the parameter \<open>item_to_dict\<close>. The extra keyword
  arguments cannot hold \<open>page\<close> or \<open>per_page\<close>: those bind to the named parameters.
\<close>

definition to_collection_dict ::
  "('a \<Rightarrow> pyval) \<Rightarrow> url_for \<Rightarrow> 'a list \<Rightarrow> int \<Rightarrow> int \<Rightarrow> string \<Rightarrow> (string \<times> pyval) list
     \<Rightarrow> pyval" where
  "to_collection_dict item_to_dict url_for query page per_page endpoint kwargs =
     (let resources = paginate query page per_page in
      PDict
        [(''items'', PList (map item_to_dict (pg_items resources))),
         (''_meta'',
            PDict [(''page'', PInt page),
                   (''per_page'', PInt per_page),
                   (''total_pages'', PInt (pages resources)),
                   (''total_items'', PInt (pg_total resources))]),
         (''_links'',
            PDict [(''self'',
                      PStr (url_for endpoint
                              ([(''page'', PInt page), (''per_page'', PInt per_page)] @ kwargs))),
                   (''next'',
                      if has_next resources
                      then PStr (url_for endpoint
                                   ([(''page'', PInt (page + 1)), (''per_page'', PInt per_page)]
                                    @ kwargs))
                      else PNone),
                   (''prev'',
                      if has_prev resources
                      then PStr (url_for endpoint
                                   ([(''page'', PInt (page - 1)), (''per_page'', PInt per_page)]
                                    @ kwargs))
                      else PNone)])])"

section \<open>Sequencing calls\<close>

text \<open>
  A call that raises ends the sequence, in the state it left; otherwise the next call runs
  on the value and the state the first one returned.
\<close>

definition and_then ::
  "(error + 'a) \<times> 's \<Rightarrow> ('a \<Rightarrow> 's \<Rightarrow> (error + 'b) \<times> 's) \<Rightarrow> (error + 'b) \<times> 's" where
  "and_then r f = (case r of (Inl e, s) \<Rightarrow> (Inl e, s) | (Inr x, s) \<Rightarrow> f x s)"

section \<open>Sample data\<close>

definition alice :: FlicketUser where
  "alice =
     (FlicketUser_init ''alice'' ''Alice Example'' ''alice@example.org'' [36, 50, 98] (datetime_of 0)
        None)
       \<lparr>user_id := Some 1, total_posts := Some 0\<rparr>"

definition alice_token :: FlicketUser where
  "alice_token = alice\<lparr>token := Some ''tok'', token_expiration := Some (datetime_of 100)\<rparr>"

definition token_db :: database where
  "token_db = \<lparr>flicket_users = [alice_token], flicket_group = [], flicket_groups = []\<rparr>"

definition alice_fresh :: FlicketUser where
  "alice_fresh = alice\<lparr>token := Some ''tok'', token_expiration := Some (datetime_of 100000000)\<rparr>"

definition zero_bytes :: bytes where
  "zero_bytes = [0, 0, 0, 0, 0, 0, 0, 0, 0, 0, 0, 0, 0, 0, 0, 0, 0, 0, 0, 0, 0, 0, 0, 0]"

definition alice_zero :: FlicketUser where
  "alice_zero = alice\<lparr>token := Some ''AAAAAAAAAAAAAAAAAAAAAAAAAAAAAAAA'',
                         token_expiration := Some (datetime_of 100000000)\<rparr>"

definition alice_unpaired :: FlicketUser where
  "alice_unpaired = alice\<lparr>token := Some ''tok''\<rparr>"

definition unpaired_db :: database where
  "unpaired_db = \<lparr>flicket_users = [alice_unpaired], flicket_group = [], flicket_groups = []\<rparr>"

definition bob :: FlicketUser where
  "bob =
     (FlicketUser_init ''bob'' ''Bob Example'' ''bob@example.org'' [36, 50, 97]
        (datetime_of 0) (Some ''Engineer''))
       \<lparr>user_id := Some 2, total_posts := Some 3\<rparr>"

definition one_bytes :: bytes where
  "one_bytes = [1, 0, 0, 0, 0, 0, 0, 0, 0, 0, 0, 0, 0, 0, 0, 0, 0, 0, 0, 0, 0, 0, 0, 0]"

definition dave :: FlicketUser where
  "dave =
     FlicketUser_init ''dave'' ''Dave Example'' ''dave@example.org'' [36, 50, 99]
       (datetime_of 0) None"

definition url_for_sample :: url_for where
  "url_for_sample endpoint values = ''/'' @ endpoint"

definition group_db :: database where
  "group_db =
     \<lparr>flicket_users = [alice, bob],
      flicket_group = [\<lparr>group_id = 1, group_name = ''flicket_admin''\<rparr>,
                       \<lparr>group_id = 2, group_name = ''staff''\<rparr>],
      flicket_groups = [(1, 1), (1, 2), (2, 2)]\<rparr>"

text \<open>
  A stand-in for the password hash, used only to run \<open>check_password\<close> on concrete data.
  Like bcrypt it takes its salt from the first 29 bytes of the second argument, rejects a
  shorter one, returns the salt followed by a digest, and reads at most the first 72 bytes
  of the password; its digest is simply those bytes.
\<close>

definition hashpw72 :: "bytes \<Rightarrow> bytes \<Rightarrow> error + bytes" where
  "hashpw72 pw salt =
     (if length salt < 29 then Inl ValueError else Inr (take 29 salt @ take 72 pw))"

definition salt29 :: bytes where
  "salt29 = replicate 29 46"

definition long_password :: string where
  "long_password = replicate 72 CHR ''a''"

definition carol :: FlicketUser where
  "carol =
     (FlicketUser_init ''carol'' ''Carol Example'' ''carol@example.org''
        (salt29 @ encode_utf8 long_password) (datetime_of 0) None)
       \<lparr>user_id := Some 3, total_posts := Some 0\<rparr>"

definition carol_db :: database where
  "carol_db = \<lparr>flicket_users = [carol], flicket_group = [], flicket_groups = []\<rparr>"

definition page_exists :: "int \<Rightarrow> int \<Rightarrow> bool" where
  "page_exists total_pages p = (1 \<le> p \<and> p \<le> total_pages)"

definition query25 :: "int list" where
  "query25 = [1, 2, 3, 4, 5, 6, 7, 8, 9, 10, 11, 12, 13, 14, 15, 16, 17, 18, 19, 20,
              21, 22, 23, 24, 25]"

section \<open>Queries\<close>

lemma first_filter_by_Some:
  "first (filter_by col v rows) = Some r \<Longrightarrow> r \<in> set rows \<and> col r = v"
  unfolding first_def filter_by_def
  by (auto split: list.splits dest: filter_eq_ConsD)

lemma first_filter_by_None:
  "(first (filter_by col v rows) = None) = (\<forall>r\<in>set rows. col r \<noteq> v)"
  unfolding first_def filter_by_def
  by (auto split: list.splits simp: filter_empty_conv dest: filter_eq_ConsD)

section \<open>Datetime arithmetic\<close>

lemma micros_datetime_of: "in_range us \<Longrightarrow> micros (datetime_of us) = us"
  by (simp add: datetime_of_inverse)

lemma in_range_micros: "in_range (micros d)"
  using micros [of d] by simp

lemma in_range_numeral:
  "in_range 0" "in_range 50" "in_range 51" "in_range 99" "in_range 100" "in_range 101"
  "in_range 5" "in_range 39000000" "in_range 100000000"
  by (simp_all add: in_range_def dt_min_def dt_max_def)

lemma timedelta_small:
  assumes "in_range a" and "in_range (a + n * 1000000)"
  shows "timedelta n = Inr (n * 1000000)"
proof -
  from assms have "- 315537897599999999 \<le> n * 1000000" and "n * 1000000 \<le> 315537897599999999"
    by (simp_all add: in_range_def dt_min_def dt_max_def)
  then have "- 315537897600 \<le> n" and "n \<le> 315537897600"
    by linarith+
  then have "- 999999999 \<le> n div 86400" and "n div 86400 \<le> 999999999"
    by linarith+
  then show ?thesis
    by (simp add: timedelta_def)
qed

lemma plus_seconds_in_range:
  "in_range (micros d + n * 1000000) \<Longrightarrow>
   plus_seconds d n = Inr (datetime_of (micros d + n * 1000000))"
  using timedelta_small [OF in_range_micros, of d n]
  by (simp add: plus_seconds_def dt_add_def)

lemma plus_seconds_overflow:
  "\<not> in_range (micros d + n * 1000000) \<Longrightarrow> plus_seconds d n = Inl OverflowError"
  by (simp add: plus_seconds_def dt_add_def timedelta_def)

lemma minus_seconds_in_range:
  "in_range (micros d - n * 1000000) \<Longrightarrow>
   minus_seconds d n = Inr (datetime_of (micros d - n * 1000000))"
proof -
  assume r: "in_range (micros d - n * 1000000)"
  have "in_range (micros d - n * 1000000 + n * 1000000)"
    using in_range_micros [of d] by simp
  from timedelta_small [OF r this] r show ?thesis
    by (simp add: minus_seconds_def dt_add_def)
qed

section \<open>check_token\<close>

text \<open>
  C1 (as amended). On a table whose rows pair every token with an expiration,
  \<open>check_token\<close> returns the row found for the token exactly when there is one and the
  current time is not later than its expiration (the expiration instant itself is still
  valid); it returns the absent result exactly when no row holds the token or the row's
  expiration lies strictly before the current time; it never raises. The lookup finds no
  row exactly when no user holds the token, and a user it returns is a row holding it.
\<close>

theorem check_token_until_expiration:
  assumes "list_all token_paired (flicket_users db)"
  shows "(check_token now db t = Inr (Some u)) =
           (first (filter_by token (Some t) (flicket_users db)) = Some u \<and>
            (\<exists>e. token_expiration u = Some e \<and> micros now \<le> micros e))
       \<and> (check_token now db t = Inr None) =
           (first (filter_by token (Some t) (flicket_users db)) = None \<or>
            (\<exists>v e. first (filter_by token (Some t) (flicket_users db)) = Some v \<and>
                   token_expiration v = Some e \<and> micros e < micros now))
       \<and> (\<forall>err. check_token now db t \<noteq> Inl err)
       \<and> (first (filter_by token (Some t) (flicket_users db)) = None) =
           (\<forall>v\<in>set (flicket_users db). token v \<noteq> Some t)
       \<and> (check_token now db t = Inr (Some u) \<longrightarrow>
            u \<in> set (flicket_users db) \<and> token u = Some t)"
proof -
  have main: "(check_token now db t = Inr (Some u)) =
           (first (filter_by token (Some t) (flicket_users db)) = Some u \<and>
            (\<exists>e. token_expiration u = Some e \<and> micros now \<le> micros e))
       \<and> (check_token now db t = Inr None) =
           (first (filter_by token (Some t) (flicket_users db)) = None \<or>
            (\<exists>v e. first (filter_by token (Some t) (flicket_users db)) = Some v \<and>
                   token_expiration v = Some e \<and> micros e < micros now))
       \<and> (\<forall>err. check_token now db t \<noteq> Inl err)"
  proof (cases "first (filter_by token (Some t) (flicket_users db))")
    case None
    then show ?thesis by (simp add: check_token_def)
  next
    case (Some v)
    from first_filter_by_Some [OF Some] assms
    have "token_paired v" and "token v = Some t"
      by (auto simp: list_all_iff)
    then obtain e where "token_expiration v = Some e"
      by (auto simp: token_paired_def)
    with Some show ?thesis
      by (auto simp: check_token_def)
  qed
  have owner: "u \<in> set (flicket_users db) \<and> token u = Some t"
    if "check_token now db t = Inr (Some u)"
  proof -
    from that main have "first (filter_by token (Some t) (flicket_users db)) = Some u"
      by simp
    then show ?thesis
      by (rule first_filter_by_Some)
  qed
  from main owner first_filter_by_None [of token "Some t" "flicket_users db"]
  show ?thesis by blast
qed

theorem check_token_until_expiration_witness:
  "list_all token_paired (flicket_users token_db)
   \<and> check_token (datetime_of 101) token_db ''tok'' = Inr None
   \<and> check_token (datetime_of 99) token_db ''tok'' = Inr (Some alice_token)
   \<and> check_token (datetime_of 99) token_db ''other'' = Inr None"
proof -
  have inv: "list_all token_paired (flicket_users token_db)"
    by (simp add: token_db_def token_paired_def alice_token_def)
  have row: "first (filter_by token (Some ''tok'') (flicket_users token_db)) = Some alice_token"
    by (simp add: token_db_def first_def filter_by_def alice_token_def)
  have norow: "first (filter_by token (Some ''other'') (flicket_users token_db)) = None"
    by (simp add: token_db_def first_def filter_by_def alice_token_def)
  have e: "token_expiration alice_token = Some (datetime_of 100)"
    by (simp add: alice_token_def)
  from check_token_until_expiration [OF inv, of "datetime_of 101" "''tok''"] row e
  have a: "check_token (datetime_of 101) token_db ''tok'' = Inr None"
    by (simp add: micros_datetime_of in_range_numeral)
  from check_token_until_expiration [OF inv, of "datetime_of 99" "''tok''" alice_token] row e
  have b: "check_token (datetime_of 99) token_db ''tok'' = Inr (Some alice_token)"
    by (simp add: micros_datetime_of in_range_numeral)
  from check_token_until_expiration [OF inv, of "datetime_of 99" "''other''"] norow
  have c: "check_token (datetime_of 99) token_db ''other'' = Inr None" by simp
  from inv a b c show ?thesis by simp
qed

text \<open>
  At the expiration instant itself (\<open>now = token_expiration\<close>, 100 microseconds after the
  epoch) the comparison \<open>token_expiration < now\<close> is false and the user is returned.
\<close>

theorem check_token_at_expiration_counterexample:
  "token_expiration alice_token = Some (datetime_of 100)
   \<and> check_token (datetime_of 100) token_db ''tok'' = Inr (Some alice_token)"
  by (simp add: check_token_def token_db_def first_def filter_by_def alice_token_def)

section \<open>Properties of the token encoding\<close>

lemma distinct_b64_alphabet: "distinct b64_alphabet"
  by (simp add: b64_alphabet_def)

lemma length_b64_alphabet: "length b64_alphabet = 64"
  by (simp add: b64_alphabet_def)

lemma unat_of_char: "unat (of_char c :: byte) = of_char c"
proof -
  have "(of_char c :: byte) = of_nat (of_char c)"
    by (simp add: of_nat_of_char)
  then have "unat (of_char c :: byte) = unat (of_nat (of_char c) :: byte)"
    by simp
  also have "\<dots> = of_char c mod 256"
    by (simp add: unat_of_nat)
  finally show ?thesis by simp
qed

lemma decode_utf8_of_char: "decode_utf8 (map of_char cs) = cs"
  by (induction cs) (simp_all add: decode_utf8_def unat_of_char)

lemma byte_of_char_of: "(of_char (char_of (unat x)) :: nat) = unat (x :: byte)"
proof -
  have "unat x < 256"
    using unsigned_less [of x] by simp
  then show ?thesis by simp
qed

lemma char_of_unat_inj: "char_of (unat (x :: byte)) = char_of (unat (y :: byte)) \<Longrightarrow> x = y"
proof -
  assume "char_of (unat x) = char_of (unat y)"
  then have "(of_char (char_of (unat x)) :: nat) = of_char (char_of (unat y))"
    by (rule arg_cong)
  then have "unat x = unat y"
    by (simp only: byte_of_char_of)
  then show "x = y"
    by (simp add: word_unat_eq_iff)
qed

lemma decode_utf8_inj: "decode_utf8 xs = decode_utf8 ys \<Longrightarrow> xs = ys"
proof (induction xs arbitrary: ys)
  case Nil
  then show ?case by (simp add: decode_utf8_def)
next
  case (Cons x xs)
  then obtain y ys' where ys: "ys = y # ys'"
    by (cases ys) (auto simp: decode_utf8_def)
  from Cons.prems ys have h: "char_of (unat x) = char_of (unat y)"
    and t: "decode_utf8 xs = decode_utf8 ys'"
    by (simp_all add: decode_utf8_def)
  from char_of_unat_inj [OF h] Cons.IH [OF t] ys show ?case by simp
qed

lemma b64_digit_inj: "i < 64 \<Longrightarrow> j < 64 \<Longrightarrow> b64_digit i = b64_digit j \<Longrightarrow> i = j"
proof -
  assume i: "i < 64" and j: "j < 64" and eq: "b64_digit i = b64_digit j"
  then have "unat (b64_digit i) = unat (b64_digit j)"
    by simp
  then have "b64_alphabet ! i = b64_alphabet ! j"
    by (simp add: b64_digit_def unat_of_char)
  with i j show "i = j"
    by (simp add: nth_eq_iff_index_eq distinct_b64_alphabet length_b64_alphabet)
qed


lemma radix_split:
  fixes x y x' y' n :: nat
  assumes "y < n" and "y' < n" and "x * n + y = x' * n + y'"
  shows "x = x' \<and> y = y'"
proof -
  from assms(3) have "(x * n + y) div n = (x' * n + y') div n"
    and "(x * n + y) mod n = (x' * n + y') mod n"
    by simp_all
  with assms(1,2) show ?thesis by simp
qed

lemma sextets_inj:
  fixes a b c a' b' c' :: nat
  assumes q1: "a div 4 = a' div 4"
    and q2: "a mod 4 * 16 + b div 16 = a' mod 4 * 16 + b' div 16"
    and q3: "b mod 16 * 4 + c div 64 = b' mod 16 * 4 + c' div 64"
    and q4: "c mod 64 = c' mod 64"
    and bb: "b < 256" "b' < 256" and cc: "c < 256" "c' < 256"
  shows "a = a' \<and> b = b' \<and> c = c'"
proof -
  have "b div 16 < 16" and "b' div 16 < 16"
    using bb by simp_all
  from radix_split [OF this q2] have a4: "a mod 4 = a' mod 4" and b16: "b div 16 = b' div 16"
    by simp_all
  have "c div 64 < 4" and "c' div 64 < 4"
    using cc by simp_all
  from radix_split [OF this q3] have b4: "b mod 16 = b' mod 16" and c64: "c div 64 = c' div 64"
    by simp_all
  have "a = a div 4 * 4 + a mod 4" by simp
  also have "\<dots> = a' div 4 * 4 + a' mod 4" using q1 a4 by simp
  finally have a: "a = a'" by simp
  have "b = b div 16 * 16 + b mod 16" by simp
  also have "\<dots> = b' div 16 * 16 + b' mod 16" using b16 b4 by simp
  finally have b: "b = b'" by simp
  have "c = c div 64 * 64 + c mod 64" by simp
  also have "\<dots> = c' div 64 * 64 + c' mod 64" using c64 q4 by simp
  finally have c: "c = c'" by simp
  from a b c show ?thesis by simp
qed


lemma unat_byte_less: "unat (a :: byte) < 256"
  using unsigned_less [of a] by simp

lemma b64_group_inj:
  fixes a b c a' b' c' :: nat
  assumes lt: "a < 256" "b < 256" "c < 256" "a' < 256" "b' < 256" "c' < 256"
    and d1: "b64_digit (a div 4) = b64_digit (a' div 4)"
    and d2: "b64_digit (a mod 4 * 16 + b div 16) = b64_digit (a' mod 4 * 16 + b' div 16)"
    and d3: "b64_digit (b mod 16 * 4 + c div 64) = b64_digit (b' mod 16 * 4 + c' div 64)"
    and d4: "b64_digit (c mod 64) = b64_digit (c' mod 64)"
  shows "a = a' \<and> b = b' \<and> c = c'"
proof -
  have "a div 4 < 64" and "a' div 4 < 64"
    using lt by simp_all
  from b64_digit_inj [OF this d1] have q1: "a div 4 = a' div 4" .
  have "a mod 4 * 16 + b div 16 < 64" and "a' mod 4 * 16 + b' div 16 < 64"
    using lt by (simp_all add: less_eq_Suc_le) 

  from b64_digit_inj [OF this d2]
  have q2: "a mod 4 * 16 + b div 16 = a' mod 4 * 16 + b' div 16" .
  have "b mod 16 * 4 + c div 64 < 64" and "b' mod 16 * 4 + c' div 64 < 64"
    using lt by (simp_all add: less_eq_Suc_le) 

  from b64_digit_inj [OF this d3]
  have q3: "b mod 16 * 4 + c div 64 = b' mod 16 * 4 + c' div 64" .
  have "c mod 64 < 64" and "c' mod 64 < 64"
    by simp_all
  from b64_digit_inj [OF this d4] have q4: "c mod 64 = c' mod 64" .
  from sextets_inj [OF q1 q2 q3 q4] lt show ?thesis by simp
qed

lemma b64encode_inj:
  "length xs = length ys \<Longrightarrow> b64encode xs = b64encode ys \<Longrightarrow> xs = ys"
proof (induction xs arbitrary: ys rule: b64encode.induct)
  case (1 a b c rest)
  then obtain a' b' c' rest' where ys: "ys = a' # b' # c' # rest'"
    by (cases ys rule: b64encode.cases) simp_all
  from "1.prems" ys have len: "length rest = length rest'"
    and tl: "b64encode rest = b64encode rest'"
    and d: "b64_digit (unat a div 4) = b64_digit (unat a' div 4)"
      "b64_digit (unat a mod 4 * 16 + unat b div 16) = b64_digit (unat a' mod 4 * 16 + unat b' div 16)"
      "b64_digit (unat b mod 16 * 4 + unat c div 64) = b64_digit (unat b' mod 16 * 4 + unat c' div 64)"
      "b64_digit (unat c mod 64) = b64_digit (unat c' mod 64)"
    by simp_all
  from b64_group_inj [OF unat_byte_less unat_byte_less unat_byte_less
      unat_byte_less unat_byte_less unat_byte_less d]
  have "a = a'" and "b = b'" and "c = c'"
    by (simp_all add: word_unat_eq_iff)
  with "1.IH" [OF len tl] ys show ?case by simp
next
  case (2 a b)
  then obtain a' b' where ys: "ys = [a', b']"
    by (cases ys rule: b64encode.cases) simp_all
  from "2.prems" ys have d:
      "b64_digit (unat a div 4) = b64_digit (unat a' div 4)"
      "b64_digit (unat a mod 4 * 16 + unat b div 16) = b64_digit (unat a' mod 4 * 16 + unat b' div 16)"
      "b64_digit (unat b mod 16 * 4 + 0 div 64) = b64_digit (unat b' mod 16 * 4 + 0 div 64)"
      "b64_digit (0 mod 64) = b64_digit (0 mod 64)"
    by simp_all
  have z: "(0::nat) < 256" by simp
  from b64_group_inj [OF unat_byte_less unat_byte_less z unat_byte_less unat_byte_less z d]
  have "a = a'" and "b = b'"
    by (simp_all add: word_unat_eq_iff)
  with ys show ?case by simp
next
  case (3 a)
  then obtain a' where ys: "ys = [a']"
    by (cases ys rule: b64encode.cases) simp_all
  from "3.prems" ys have d:
      "b64_digit (unat a div 4) = b64_digit (unat a' div 4)"
      "b64_digit (unat a mod 4 * 16 + 0 div 16) = b64_digit (unat a' mod 4 * 16 + 0 div 16)"
      "b64_digit (0 mod 16 * 4 + 0 div 64) = b64_digit (0 mod 16 * 4 + 0 div 64)"
      "b64_digit (0 mod 64) = b64_digit (0 mod 64)"
    by simp_all
  have z: "(0::nat) < 256" by simp
  from b64_group_inj [OF unat_byte_less z z unat_byte_less z z d]
  have "a = a'"
    by (simp add: word_unat_eq_iff)
  with ys show ?case by simp
next
  case 4
  then show ?case by simp
qed

lemma length_b64encode: "length (b64encode xs) = 4 * ((length xs + 2) div 3)"
proof (induction xs rule: b64encode.induct)
  case (1 a b c rest)
  have "(length rest + 3 + 2) div 3 = (length rest + 2) div 3 + 1"
    by simp
  with 1 show ?case by simp
qed simp_all

lemma b64_zero: "decode_utf8 (b64encode zero_bytes) = ''AAAAAAAAAAAAAAAAAAAAAAAAAAAAAAAA''"
proof -
  have "b64encode zero_bytes = map of_char ''AAAAAAAAAAAAAAAAAAAAAAAAAAAAAAAA''"
    by (simp add: zero_bytes_def b64_digit_def b64_alphabet_def)
  then show ?thesis
    by (simp only: decode_utf8_of_char)
qed

lemma b64_one: "decode_utf8 (b64encode one_bytes) = ''AQAAAAAAAAAAAAAAAAAAAAAAAAAAAAAA''"
proof -
  have "b64encode one_bytes = map of_char ''AQAAAAAAAAAAAAAAAAAAAAAAAAAAAAAA''"
    by (simp add: one_bytes_def b64_digit_def b64_alphabet_def)
  then show ?thesis
    by (simp only: decode_utf8_of_char)
qed

section \<open>get_token\<close>

lemma get_token_fresh:
  assumes tok: "token self = Some t" "t \<noteq> []"
    and exp: "token_expiration self = Some e"
    and w: "micros now + 60 * 1000000 < micros e"
  shows "get_token now rnd expires_in self_id self session = (Inr t, self, session)"
proof -
  have "in_range (micros now + 60 * 1000000)"
    using w in_range_micros [of now] in_range_micros [of e]
    by (simp add: in_range_def)
  then have "plus_seconds now 60 = Inr (datetime_of (micros now + 60 * 1000000))"
    and "micros (datetime_of (micros now + 60 * 1000000)) = micros now + 60 * 1000000"
    by (simp_all add: plus_seconds_in_range micros_datetime_of)
  with tok exp w show ?thesis
    by (simp add: get_token_def)
qed

lemma mint_token_in_range:
  assumes "in_range (micros now + expires_in * 1000000)"
  shows "mint_token now rnd expires_in self_id self session =
           (Inr (decode_utf8 (b64encode rnd)),
            self\<lparr>token := Some (decode_utf8 (b64encode rnd)),
                 token_expiration := Some (datetime_of (micros now + expires_in * 1000000))\<rparr>,
            insert self_id session)"
  using assms by (simp add: mint_token_def plus_seconds_in_range Let_def)

lemma mint_token_overflow:
  assumes "\<not> in_range (micros now + expires_in * 1000000)"
  shows "mint_token now rnd expires_in self_id self session =
           (Inl OverflowError, self\<lparr>token := Some (decode_utf8 (b64encode rnd))\<rparr>, session)"
  using assms by (simp add: mint_token_def plus_seconds_overflow Let_def)

lemma get_token_stale:
  assumes "token self = None \<or> token self = Some []
           \<or> (in_range (micros now + 60 * 1000000)
               \<and> (\<exists>e. token_expiration self = Some e \<and> micros e - micros now \<le> 60 * 1000000))"
  shows "get_token now rnd expires_in self_id self session =
           mint_token now rnd expires_in self_id self session"
proof (cases "token self = None \<or> token self = Some []")
  case True
  then show ?thesis
    by (auto simp: get_token_def)
next
  case False
  with assms obtain e where r: "in_range (micros now + 60 * 1000000)"
    and e: "token_expiration self = Some e" "micros e - micros now \<le> 60 * 1000000"
    by blast
  from r have "plus_seconds now 60 = Inr (datetime_of (micros now + 60 * 1000000))"
    and "micros (datetime_of (micros now + 60 * 1000000)) = micros now + 60 * 1000000"
    by (simp_all add: plus_seconds_in_range micros_datetime_of)
  with e show ?thesis
    by (simp add: get_token_def split: option.splits)
qed

text \<open>
  C2. For a user whose token is set (a non-empty string, which is what the source's truth
  test of \<open>self.token\<close> accepts) and whose expiration is more than 60 seconds after the
  current time, \<open>get_token\<close> returns the existing token and leaves the user and the
  session as they were, whatever the random source and \<open>expires_in\<close> are; a second call at
  a time still more than 60 seconds before the expiration, run on the state the first call
  returned, returns the identical token and state.
\<close>

theorem get_token_idempotent:
  assumes tok: "token self = Some t" "t \<noteq> []"
    and exp: "token_expiration self = Some e"
    and w1: "micros now + 60 * 1000000 < micros e"
    and w2: "micros now' + 60 * 1000000 < micros e"
  shows "get_token now rnd expires_in self_id self session = (Inr t, self, session)
       \<and> and_then (get_token now rnd expires_in self_id self session)
            (\<lambda>t1 (self1, session1). get_token now' rnd' expires_in' self_id self1 session1) =
           (Inr t, self, session)"
  using get_token_fresh [OF tok exp w1] get_token_fresh [OF tok exp w2]
  by (simp add: and_then_def)

theorem get_token_idempotent_witness:
  "get_token (datetime_of 0) zero_bytes 36000 1 alice_fresh {} = (Inr ''tok'', alice_fresh, {})
   \<and> and_then (get_token (datetime_of 0) zero_bytes 36000 1 alice_fresh {})
        (\<lambda>t1 (self1, session1). get_token (datetime_of 39000000) one_bytes 36000 1 self1 session1) =
       (Inr ''tok'', alice_fresh, {})"
proof -
  have tok: "token alice_fresh = Some ''tok''" and ne: "''tok'' \<noteq> []"
    and exp: "token_expiration alice_fresh = Some (datetime_of 100000000)"
    by (simp_all add: alice_fresh_def)
  have w1: "micros (datetime_of 0) + 60 * 1000000 < micros (datetime_of 100000000)"
    and w2: "micros (datetime_of 39000000) + 60 * 1000000 < micros (datetime_of 100000000)"
    by (simp_all add: micros_datetime_of in_range_numeral)
  show ?thesis
    by (rule get_token_idempotent [OF tok ne exp w1 w2])
qed

text \<open>
  C3 (as amended). For a user with no token (absent or empty), or with an expiration at
  most 60 seconds after the current time (where \<open>now + 60 s\<close> is a datetime), and for an
  \<open>expires_in\<close> such that \<open>now + expires_in\<close> seconds is a datetime, \<open>get_token(expires_in)\<close>
  returns the base64 text of the 24 bytes drawn from the random source (32 characters),
  stores it as the user's token, sets the expiration to \<open>now + expires_in\<close> seconds and
  registers the object with the session; without an argument \<open>expires_in\<close> is 36000. When
  \<open>now + expires_in\<close> seconds is not a datetime, the call raises \<open>OverflowError\<close> with the
  new token already assigned, the expiration and the session as they were.
\<close>

theorem get_token_mints:
  assumes rnd: "length rnd = 24"
    and stale: "token self = None \<or> token self = Some []
                \<or> (in_range (micros now + 60 * 1000000)
                    \<and> (\<exists>e. token_expiration self = Some e
                            \<and> micros e - micros now \<le> 60 * 1000000))"
  shows "(in_range (micros now + expires_in * 1000000) \<longrightarrow>
          get_token now rnd expires_in self_id self session =
            (Inr (decode_utf8 (b64encode rnd)),
             self\<lparr>token := Some (decode_utf8 (b64encode rnd)),
                  token_expiration := Some (datetime_of (micros now + expires_in * 1000000))\<rparr>,
             insert self_id session))
       \<and> (\<not> in_range (micros now + expires_in * 1000000) \<longrightarrow>
          get_token now rnd expires_in self_id self session =
            (Inl OverflowError, self\<lparr>token := Some (decode_utf8 (b64encode rnd))\<rparr>, session))
       \<and> length (decode_utf8 (b64encode rnd)) = 32
       \<and> get_token_default now rnd self_id self session =
           get_token now rnd 36000 self_id self session"
proof -
  from rnd have "length (decode_utf8 (b64encode rnd)) = 32"
    by (simp add: decode_utf8_def length_b64encode)
  then show ?thesis
    by (simp add: get_token_stale [OF stale] mint_token_in_range mint_token_overflow
        get_token_default_def)
qed

theorem get_token_mints_witness:
  "get_token_default (datetime_of 5) zero_bytes 1 alice {} =
     (Inr ''AAAAAAAAAAAAAAAAAAAAAAAAAAAAAAAA'',
      alice\<lparr>token := Some ''AAAAAAAAAAAAAAAAAAAAAAAAAAAAAAAA'',
            token_expiration := Some (datetime_of 36000000005)\<rparr>,
      {1})
   \<and> get_token (datetime_of 5) zero_bytes 36000 1
        (alice\<lparr>token := Some ''AAAAAAAAAAAAAAAAAAAAAAAAAAAAAAAA'',
               token_expiration := Some (datetime_of 5)\<rparr>) {1} =
     (Inr ''AAAAAAAAAAAAAAAAAAAAAAAAAAAAAAAA'',
      alice\<lparr>token := Some ''AAAAAAAAAAAAAAAAAAAAAAAAAAAAAAAA'',
            token_expiration := Some (datetime_of 36000000005)\<rparr>,
      {1})
   \<and> get_token (datetime_of 5) zero_bytes (- 1000000000000) 1 alice {} =
     (Inl OverflowError, alice\<lparr>token := Some ''AAAAAAAAAAAAAAAAAAAAAAAAAAAAAAAA''\<rparr>, {})"
proof -
  have rnd: "length zero_bytes = 24"
    by (simp add: zero_bytes_def)
  have stale: "token alice = None \<or> token alice = Some []
      \<or> (in_range (micros (datetime_of 5) + 60 * 1000000)
          \<and> (\<exists>e. token_expiration alice = Some e
                  \<and> micros e - micros (datetime_of 5) \<le> 60 * 1000000))"
    by (simp add: alice_def FlicketUser_init_def)
  have r: "in_range (micros (datetime_of 5) + 36000 * 1000000)"
    by (simp add: micros_datetime_of in_range_numeral in_range_def dt_min_def dt_max_def)
  let ?old = "alice\<lparr>token := Some ''AAAAAAAAAAAAAAAAAAAAAAAAAAAAAAAA'',
                     token_expiration := Some (datetime_of 5)\<rparr>"
  have stale2: "token ?old = None \<or> token ?old = Some []
      \<or> (in_range (micros (datetime_of 5) + 60 * 1000000)
          \<and> (\<exists>e. token_expiration ?old = Some e
                  \<and> micros e - micros (datetime_of 5) \<le> 60 * 1000000))"
    by (simp add: micros_datetime_of in_range_numeral in_range_def dt_min_def dt_max_def)
  from get_token_mints [OF rnd stale, of 36000 1 "{}"] r
  have a: "get_token_default (datetime_of 5) zero_bytes 1 alice {} =
     (Inr ''AAAAAAAAAAAAAAAAAAAAAAAAAAAAAAAA'',
      alice\<lparr>token := Some ''AAAAAAAAAAAAAAAAAAAAAAAAAAAAAAAA'',
            token_expiration := Some (datetime_of 36000000005)\<rparr>,
      {1})"
    by (simp add: b64_zero micros_datetime_of in_range_numeral)
  from get_token_mints [OF rnd stale2, of 36000 1 "{1}"] r
  have b: "get_token (datetime_of 5) zero_bytes 36000 1 ?old {1} =
     (Inr ''AAAAAAAAAAAAAAAAAAAAAAAAAAAAAAAA'',
      alice\<lparr>token := Some ''AAAAAAAAAAAAAAAAAAAAAAAAAAAAAAAA'',
            token_expiration := Some (datetime_of 36000000005)\<rparr>,
      {1})"
    by (simp add: b64_zero micros_datetime_of in_range_numeral)
  have nr: "\<not> in_range (micros (datetime_of 5) + (- 1000000000000) * 1000000)"
    by (simp add: micros_datetime_of in_range_numeral in_range_def dt_min_def dt_max_def)
  from get_token_mints [OF rnd stale, of "- 1000000000000" 1 "{}"] nr
  have c: "get_token (datetime_of 5) zero_bytes (- 1000000000000) 1 alice {} =
     (Inl OverflowError, alice\<lparr>token := Some ''AAAAAAAAAAAAAAAAAAAAAAAAAAAAAAAA''\<rparr>, {})"
    by (simp add: b64_zero)
  from a b c show ?thesis by simp
qed

text \<open>
  A user with no token and \<open>expires_in\<close> of a million million seconds: \<open>now + expires_in\<close>
  lies beyond the year 9999, the call raises \<open>OverflowError\<close> and returns no token.
\<close>

theorem get_token_overflow_counterexample:
  "token alice = None
   \<and> get_token (datetime_of 5) zero_bytes 1000000000000 1 alice {} =
       (Inl OverflowError, alice\<lparr>token := Some ''AAAAAAAAAAAAAAAAAAAAAAAAAAAAAAAA''\<rparr>, {})"
  by (simp add: get_token_def mint_token_def plus_seconds_def timedelta_def dt_add_def
      micros_datetime_of in_range_numeral in_range_def dt_min_def dt_max_def b64_zero
      alice_def FlicketUser_init_def)

text \<open>
  C9 (as amended). Under the invariant that a stored token is paired with a non-null
  expiration, \<open>check_token\<close> (on a table whose rows satisfy it) returns a result and does
  not raise, for every time and token string, and a token lookup that finds no row gives
  the absent result; \<open>get_token\<close> (on a user satisfying it) returns a token and does not
  raise whenever \<open>now + 60 s\<close> and \<open>now + expires_in\<close> seconds are datetimes. When a new
  token has to be minted and \<open>now + expires_in\<close> seconds is not a datetime, \<open>get_token\<close>
  raises \<open>OverflowError\<close>. Without the invariant, a truthy token with a null expiration
  makes \<open>get_token\<close> raise \<open>TypeError\<close>, and a row found by \<open>check_token\<close> whose expiration is
  null makes it raise \<open>TypeError\<close>.
\<close>

theorem token_operations_raise_only_out_of_range:
  "(token_paired self \<and> in_range (micros now + 60 * 1000000)
      \<and> in_range (micros now + expires_in * 1000000) \<longrightarrow>
      (\<exists>tok self' session'.
          get_token now rnd expires_in self_id self session = (Inr tok, self', session')))
   \<and> (list_all token_paired (flicket_users db) \<longrightarrow> (\<exists>r. check_token now db t = Inr r))
   \<and> (first (filter_by token (Some t) (flicket_users db)) = None \<longrightarrow>
        check_token now db t = Inr None)
   \<and> ((token self = None \<or> token self = Some [])
        \<and> \<not> in_range (micros now + expires_in * 1000000) \<longrightarrow>
        fst (get_token now rnd expires_in self_id self session) = Inl OverflowError)
   \<and> (token self = Some t' \<and> t' \<noteq> [] \<and> token_expiration self = None
        \<and> in_range (micros now + 60 * 1000000) \<longrightarrow>
        get_token now rnd expires_in self_id self session = (Inl TypeError, self, session))
   \<and> (first (filter_by token (Some t) (flicket_users db)) = Some u \<and> token_expiration u = None \<longrightarrow>
        check_token now db t = Inl TypeError)"
proof -
  have g: "\<exists>tok self' session'.
      get_token now rnd expires_in self_id self session = (Inr tok, self', session')"
    if p: "token_paired self" and r60: "in_range (micros now + 60 * 1000000)"
      and rx: "in_range (micros now + expires_in * 1000000)"
  proof -
    from r60 have lim: "plus_seconds now 60 = Inr (datetime_of (micros now + 60 * 1000000))"
      by (simp add: plus_seconds_in_range)
    from p show ?thesis
      by (auto simp: get_token_def lim mint_token_in_range [OF rx] token_paired_def
          split: option.splits)
  qed
  have c: "\<exists>r. check_token now db t = Inr r" if inv: "list_all token_paired (flicket_users db)"
  proof (cases "first (filter_by token (Some t) (flicket_users db))")
    case None
    then show ?thesis by (simp add: check_token_def)
  next
    case (Some v)
    from first_filter_by_Some [OF Some] inv
    have "token_paired v" and "token v = Some t"
      by (auto simp: list_all_iff)
    then obtain e where "token_expiration v = Some e"
      by (auto simp: token_paired_def)
    with Some show ?thesis
      by (simp add: check_token_def)
  qed
  have z: "check_token now db t = Inr None"
    if "first (filter_by token (Some t) (flicket_users db)) = None"
    using that by (simp add: check_token_def)
  have ov: "fst (get_token now rnd expires_in self_id self session) = Inl OverflowError"
    if "token self = None \<or> token self = Some []"
      and "\<not> in_range (micros now + expires_in * 1000000)"
    using that by (auto simp: get_token_def mint_token_overflow)
  have ge: "get_token now rnd expires_in self_id self session = (Inl TypeError, self, session)"
    if "token self = Some t'" "t' \<noteq> []" "token_expiration self = None"
      "in_range (micros now + 60 * 1000000)"
    using that by (simp add: get_token_def plus_seconds_in_range)
  have ce: "check_token now db t = Inl TypeError"
    if "first (filter_by token (Some t) (flicket_users db)) = Some u" "token_expiration u = None"
    using that by (simp add: check_token_def)
  from g c z ov ge ce show ?thesis by blast
qed

theorem token_operations_raise_only_out_of_range_witness:
  "token_paired alice_fresh
   \<and> list_all token_paired (flicket_users token_db)
   \<and> get_token (datetime_of 0) zero_bytes 36000 1 alice_fresh {} = (Inr ''tok'', alice_fresh, {})
   \<and> check_token (datetime_of 99) token_db ''tok'' = Inr (Some alice_token)
   \<and> check_token (datetime_of 99) token_db ''other'' = Inr None
   \<and> fst (get_token (datetime_of 0) zero_bytes 400000000000 1 alice {}) = Inl OverflowError
   \<and> get_token (datetime_of 0) zero_bytes 36000 1 alice_unpaired {} =
       (Inl TypeError, alice_unpaired, {})
   \<and> check_token (datetime_of 99) unpaired_db ''tok'' = Inl TypeError"
proof -
  have p: "token_paired alice_token" "token_paired alice_fresh"
    by (simp_all add: token_paired_def alice_token_def alice_fresh_def)
  have inv: "list_all token_paired (flicket_users token_db)"
    by (simp add: token_db_def p)
  have r: "in_range (micros (datetime_of 0) + 60 * 1000000)"
    "in_range (micros (datetime_of 0) + 36000 * 1000000)"
    and nr: "\<not> in_range (micros (datetime_of 0) + 400000000000 * 1000000)"
    by (simp_all add: micros_datetime_of in_range_numeral in_range_def dt_min_def dt_max_def)
  have norow: "first (filter_by token (Some ''other'') (flicket_users token_db)) = None"
    by (simp add: token_db_def first_def filter_by_def alice_token_def)
  have no: "token alice = None \<or> token alice = Some []"
    by (simp add: alice_def FlicketUser_init_def)
  have un: "token alice_unpaired = Some ''tok'' \<and> ''tok'' \<noteq> []
      \<and> token_expiration alice_unpaired = None"
    by (simp add: alice_unpaired_def alice_def FlicketUser_init_def)
  have unrow: "first (filter_by token (Some ''tok'') (flicket_users unpaired_db)) = Some alice_unpaired
      \<and> token_expiration alice_unpaired = None"
    by (simp add: unpaired_db_def first_def filter_by_def alice_unpaired_def alice_def
        FlicketUser_init_def)
  note th = token_operations_raise_only_out_of_range
  from th [where self = alice_fresh and now = "datetime_of 0" and expires_in = 36000
      and rnd = zero_bytes and self_id = 1 and session = "{}"] p r
  obtain tok self' session' where
    "get_token (datetime_of 0) zero_bytes 36000 1 alice_fresh {} = (Inr tok, self', session')"
    by blast
  moreover have "get_token (datetime_of 0) zero_bytes 36000 1 alice_fresh {} =
      (Inr ''tok'', alice_fresh, {})"
    by (rule get_token_fresh [where e = "datetime_of 100000000"])
      (simp_all add: alice_fresh_def micros_datetime_of in_range_numeral)
  ultimately have a: "get_token (datetime_of 0) zero_bytes 36000 1 alice_fresh {} =
      (Inr ''tok'', alice_fresh, {}) \<and> tok = ''tok''"
    by simp
  from th [where now = "datetime_of 99" and db = token_db and t = "''tok''"] inv
  have b: "check_token (datetime_of 99) token_db ''tok'' = Inr (Some alice_token)"
    by (simp add: check_token_def token_db_def first_def filter_by_def alice_token_def
        micros_datetime_of in_range_numeral)
  from th [where now = "datetime_of 99" and db = token_db and t = "''other''"] norow
  have c: "check_token (datetime_of 99) token_db ''other'' = Inr None"
    by simp
  from th [where self = alice and now = "datetime_of 0" and expires_in = 400000000000
      and rnd = zero_bytes and self_id = 1 and session = "{}"] no nr
  have o: "fst (get_token (datetime_of 0) zero_bytes 400000000000 1 alice {}) = Inl OverflowError"
    by simp
  from th [where self = alice_unpaired and now = "datetime_of 0" and t' = "''tok''"
      and expires_in = 36000 and rnd = zero_bytes and self_id = 1 and session = "{}"] un r
  have d: "get_token (datetime_of 0) zero_bytes 36000 1 alice_unpaired {} =
      (Inl TypeError, alice_unpaired, {})"
    by simp
  from th [where now = "datetime_of 99" and db = unpaired_db and t = "''tok''"
      and u = alice_unpaired] unrow
  have e: "check_token (datetime_of 99) unpaired_db ''tok'' = Inl TypeError"
    by simp
  from p inv a b c o d e show ?thesis by simp
qed

text \<open>
  A user whose token (paired with its expiration) has expired asks for a token valid for a
  million million seconds: the invariant holds and \<open>get_token\<close> raises \<open>OverflowError\<close>.
\<close>

theorem get_token_raises_under_invariant_counterexample:
  "token_paired alice_token
   \<and> get_token (datetime_of 101) one_bytes 1000000000000 1 alice_token {} =
       (Inl OverflowError, alice_token\<lparr>token := Some ''AQAAAAAAAAAAAAAAAAAAAAAAAAAAAAAA''\<rparr>, {})"
  by (simp add: get_token_def mint_token_def plus_seconds_def timedelta_def dt_add_def
      micros_datetime_of in_range_numeral in_range_def dt_min_def dt_max_def b64_one
      alice_token_def token_paired_def)

section \<open>revoke_token\<close>

lemma first_filter_by_append:
  assumes "\<forall>r\<in>set xs. col r \<noteq> v" and "col x = v"
  shows "first (filter_by col v (xs @ x # ys)) = Some x"
  using assms by (simp add: first_def filter_by_def filter_empty_conv [THEN iffD2])

text \<open>
  C6 (as amended). For a user holding token \<open>t\<close> whose row is the one the token lookup
  finds, at a clock reading for which \<open>now - 1 s\<close> is a datetime: \<open>revoke_token\<close> sets the
  expiration to one second before the current time and changes no other field (restoring
  the old expiration gives back the object; the token string stays). Afterwards, at any
  time not before the revocation, \<open>check_token t\<close> on the table holding the revoked object
  returns the absent result; and \<open>get_token\<close>, called when \<open>now + 60 s\<close> and
  \<open>now + expires_in\<close> seconds are datetimes, discards the revoked token and returns a newly
  minted one, the base64 text of the 24 bytes drawn, registering the object with the
  session. The new token differs from the revoked one exactly when the bytes drawn differ
  from the 24 bytes the revoked token encodes.
\<close>

theorem revoke_token_then_fresh:
  assumes held: "token self = Some t"
    and rows: "flicket_users db = before @ self # after"
    and uniq: "\<forall>u\<in>set before. token u \<noteq> Some t"
    and t1: "micros now \<le> micros now1" and t2: "micros now \<le> micros now2"
    and rnd: "length rnd = 24"
    and r1: "in_range (micros now - 1 * 1000000)"
    and r60: "in_range (micros now2 + 60 * 1000000)"
    and rx: "in_range (micros now2 + expires_in * 1000000)"
  shows "revoke_token now self =
           Inr (self\<lparr>token_expiration := Some (datetime_of (micros now - 1 * 1000000))\<rparr>)
       \<and> micros (datetime_of (micros now - 1 * 1000000)) = micros now - 1000000
       \<and> (self\<lparr>token_expiration := Some (datetime_of (micros now - 1 * 1000000))\<rparr>)
            \<lparr>token_expiration := token_expiration self\<rparr> = self
       \<and> token (self\<lparr>token_expiration := Some (datetime_of (micros now - 1 * 1000000))\<rparr>)
           = Some t
       \<and> check_token now1
            (db\<lparr>flicket_users :=
                  before
                  @ self\<lparr>token_expiration := Some (datetime_of (micros now - 1 * 1000000))\<rparr>
                  # after\<rparr>) t
           = Inr None
       \<and> get_token now2 rnd expires_in self_id
            (self\<lparr>token_expiration := Some (datetime_of (micros now - 1 * 1000000))\<rparr>) session =
           (Inr (decode_utf8 (b64encode rnd)),
            self\<lparr>token := Some (decode_utf8 (b64encode rnd)),
                 token_expiration := Some (datetime_of (micros now2 + expires_in * 1000000))\<rparr>,
            insert self_id session)
       \<and> (\<forall>r0. length r0 = 24 \<and> t = decode_utf8 (b64encode r0) \<longrightarrow>
             (decode_utf8 (b64encode rnd) \<noteq> t) = (rnd \<noteq> r0))"
proof -
  let ?self' = "self\<lparr>token_expiration := Some (datetime_of (micros now - 1 * 1000000))\<rparr>"
  have rev: "revoke_token now self = Inr ?self'"
    using r1 by (simp add: revoke_token_def minus_seconds_in_range)
  have m: "micros (datetime_of (micros now - 1 * 1000000)) = micros now - 1000000"
    using r1 by (simp add: micros_datetime_of)
  have frame: "?self'\<lparr>token_expiration := token_expiration self\<rparr> = self"
    by simp
  have tok: "token ?self' = Some t"
    using held by simp
  from first_filter_by_append [of before token "Some t" ?self' after] uniq tok
  have "first (filter_by token (Some t) (before @ ?self' # after)) = Some ?self'"
    by simp
  with m t1 have chk:
    "check_token now1 (db\<lparr>flicket_users := before @ ?self' # after\<rparr>) t = Inr None"
    by (simp add: check_token_def)
  have "token ?self' = None \<or> token ?self' = Some []
      \<or> (in_range (micros now2 + 60 * 1000000)
          \<and> (\<exists>e. token_expiration ?self' = Some e \<and> micros e - micros now2 \<le> 60 * 1000000))"
    using r60 m t2 by simp
  from get_token_stale [OF this] mint_token_in_range [OF rx]
  have get: "get_token now2 rnd expires_in self_id ?self' session =
           (Inr (decode_utf8 (b64encode rnd)),
            self\<lparr>token := Some (decode_utf8 (b64encode rnd)),
                 token_expiration := Some (datetime_of (micros now2 + expires_in * 1000000))\<rparr>,
            insert self_id session)"
    by simp
  have diff: "(decode_utf8 (b64encode rnd) \<noteq> t) = (rnd \<noteq> r0)"
    if "length r0 = 24" and "t = decode_utf8 (b64encode r0)" for r0
  proof -
    have "(decode_utf8 (b64encode rnd) = decode_utf8 (b64encode r0)) = (rnd = r0)"
    proof
      assume "decode_utf8 (b64encode rnd) = decode_utf8 (b64encode r0)"
      then have "b64encode rnd = b64encode r0"
        by (rule decode_utf8_inj)
      moreover have "length rnd = length r0"
        using rnd that(1) by simp
      ultimately show "rnd = r0"
        by (rule b64encode_inj [rotated])
    qed simp
    with that(2) show ?thesis by simp
  qed
  from rev m frame tok chk get diff show ?thesis by blast
qed

theorem revoke_token_then_fresh_witness:
  "revoke_token (datetime_of 50) alice_zero =
     Inr (alice_zero\<lparr>token_expiration := Some (datetime_of (- 999950))\<rparr>)
   \<and> check_token (datetime_of 50)
        \<lparr>flicket_users = [bob, alice_zero\<lparr>token_expiration := Some (datetime_of (- 999950))\<rparr>],
         flicket_group = [], flicket_groups = []\<rparr> ''AAAAAAAAAAAAAAAAAAAAAAAAAAAAAAAA'' = Inr None
   \<and> get_token (datetime_of 50) one_bytes 36000 1
        (alice_zero\<lparr>token_expiration := Some (datetime_of (- 999950))\<rparr>) {1} =
       (Inr ''AQAAAAAAAAAAAAAAAAAAAAAAAAAAAAAA'',
        alice\<lparr>token := Some ''AQAAAAAAAAAAAAAAAAAAAAAAAAAAAAAA'',
              token_expiration := Some (datetime_of 36000000050)\<rparr>,
        {1})
   \<and> one_bytes \<noteq> zero_bytes"
proof -
  have held: "token alice_zero = Some ''AAAAAAAAAAAAAAAAAAAAAAAAAAAAAAAA''"
    by (simp add: alice_zero_def)
  have rows: "flicket_users \<lparr>flicket_users = [bob, alice_zero], flicket_group = [],
                             flicket_groups = []\<rparr> = [bob] @ alice_zero # []"
    by simp
  have uniq: "\<forall>u\<in>set [bob]. token u \<noteq> Some ''AAAAAAAAAAAAAAAAAAAAAAAAAAAAAAAA''"
    by (simp add: bob_def FlicketUser_init_def)
  have m: "micros (datetime_of 50) = 50"
    by (simp add: micros_datetime_of in_range_numeral)
  have t: "micros (datetime_of 50) \<le> micros (datetime_of 50)" by simp
  have rnd: "length one_bytes = 24" and r0: "length zero_bytes = 24"
    by (simp_all add: one_bytes_def zero_bytes_def)
  have r1: "in_range (micros (datetime_of 50) - 1 * 1000000)"
    and r60: "in_range (micros (datetime_of 50) + 60 * 1000000)"
    and rx: "in_range (micros (datetime_of 50) + 36000 * 1000000)"
    by (simp_all add: m in_range_def dt_min_def dt_max_def)
  note th = revoke_token_then_fresh [OF held rows uniq t t rnd r1 r60 rx, of 1 "{1}"]
  from th have enc:
    "\<forall>r0. length r0 = 24 \<and> ''AAAAAAAAAAAAAAAAAAAAAAAAAAAAAAAA'' = decode_utf8 (b64encode r0) \<longrightarrow>
       (decode_utf8 (b64encode one_bytes) \<noteq> ''AAAAAAAAAAAAAAAAAAAAAAAAAAAAAAAA'') =
       (one_bytes \<noteq> r0)"
    by blast
  from enc [THEN spec, of zero_bytes] r0 have "one_bytes \<noteq> zero_bytes"
    by (simp add: b64_one b64_zero)
  with th show ?thesis
    by (simp add: b64_one m alice_zero_def)
qed

text \<open>
  The revoked token is the encoding of 24 zero bytes and the random source returns 24 zero
  bytes again: \<open>get_token\<close> after \<open>revoke_token\<close> returns the revoked string.
\<close>

theorem revoke_then_get_token_same_counterexample:
  "token alice_zero = Some ''AAAAAAAAAAAAAAAAAAAAAAAAAAAAAAAA''
   \<and> revoke_token (datetime_of 50) alice_zero =
       Inr (alice_zero\<lparr>token_expiration := Some (datetime_of (- 999950))\<rparr>)
   \<and> get_token (datetime_of 51) zero_bytes 36000 1
        (alice_zero\<lparr>token_expiration := Some (datetime_of (- 999950))\<rparr>) {1} =
       (Inr ''AAAAAAAAAAAAAAAAAAAAAAAAAAAAAAAA'',
        alice_zero\<lparr>token_expiration := Some (datetime_of 36000000051)\<rparr>,
        {1})"
  by (simp add: get_token_def mint_token_def Let_def revoke_token_def alice_zero_def
      plus_seconds_def minus_seconds_def timedelta_def dt_add_def
      micros_datetime_of in_range_numeral in_range_def dt_min_def dt_max_def b64_zero)

section \<open>to_dict\<close>

text \<open>
  C8. \<open>to_dict\<close> returns a map with exactly the keys id, username, name, email, job_title,
  total_posts and links, the last holding the self-link URL; each of the first four and
  total_posts carries the stored value; job_title is the string "unknown" when the user has
  no job title and the stored value when one is present (a non-empty string); the output
  does not depend on the password, the token or its expiration.
\<close>

theorem to_dict_fields:
  "keys (to_dict url_for self) =
     [''id'', ''username'', ''name'', ''email'', ''job_title'', ''total_posts'', ''links'']
   \<and> get_item (to_dict url_for self) ''id'' = Some (opt_int (user_id self))
   \<and> get_item (to_dict url_for self) ''username'' = Some (PStr (username self))
   \<and> get_item (to_dict url_for self) ''name'' = Some (PStr (name self))
   \<and> get_item (to_dict url_for self) ''email'' = Some (PStr (email self))
   \<and> get_item (to_dict url_for self) ''total_posts'' = Some (opt_int (total_posts self))
   \<and> get_item (to_dict url_for self) ''links'' =
        Some (PDict [(''self'', PStr (url_for ''bp_api_v2.get_user''
                                     [(''id'', opt_int (user_id self))]))])
   \<and> (job_title self = None \<longrightarrow>
        get_item (to_dict url_for self) ''job_title'' = Some (PStr ''unknown''))
   \<and> (\<forall>s. job_title self = Some s \<and> s \<noteq> [] \<longrightarrow>
        get_item (to_dict url_for self) ''job_title'' = Some (PStr s))
   \<and> to_dict url_for (self\<lparr>password := pw, token := tok, token_expiration := te\<rparr>) =
       to_dict url_for self"
  by (simp add: to_dict_def keys_def get_item_def)

theorem to_dict_fields_witness:
  "to_dict url_for_sample alice =
     PDict [(''id'', PInt 1), (''username'', PStr ''alice''), (''name'', PStr ''Alice Example''),
            (''email'', PStr ''alice@example.org''), (''job_title'', PStr ''unknown''),
            (''total_posts'', PInt 0),
            (''links'', PDict [(''self'', PStr ''/bp_api_v2.get_user'')])]
   \<and> get_item (to_dict url_for_sample alice) ''job_title'' = Some (PStr ''unknown'')
   \<and> get_item (to_dict url_for_sample bob) ''job_title'' = Some (PStr ''Engineer'')
   \<and> to_dict url_for_sample alice_zero = to_dict url_for_sample alice"
proof -
  have a: "job_title alice = None"
    by (simp add: alice_def FlicketUser_init_def)
  have b: "job_title bob = Some ''Engineer'' \<and> ''Engineer'' \<noteq> []"
    by (simp add: bob_def FlicketUser_init_def)
  have z: "alice_zero = alice\<lparr>password := password alice,
      token := Some ''AAAAAAAAAAAAAAAAAAAAAAAAAAAAAAAA'', token_expiration := Some (datetime_of 100000000)\<rparr>"
    by (simp add: alice_zero_def)
  have full: "to_dict url_for_sample alice =
     PDict [(''id'', PInt 1), (''username'', PStr ''alice''), (''name'', PStr ''Alice Example''),
            (''email'', PStr ''alice@example.org''), (''job_title'', PStr ''unknown''),
            (''total_posts'', PInt 0),
            (''links'', PDict [(''self'', PStr ''/bp_api_v2.get_user'')])]"
    by (simp add: to_dict_def alice_def FlicketUser_init_def url_for_sample_def)
  from to_dict_fields [where url_for = url_for_sample and self = alice] a
  have ja: "get_item (to_dict url_for_sample alice) ''job_title'' = Some (PStr ''unknown'')"
    by simp
  from to_dict_fields [where url_for = url_for_sample and self = bob] b
  have jb: "get_item (to_dict url_for_sample bob) ''job_title'' = Some (PStr ''Engineer'')"
    by simp
  from to_dict_fields [where url_for = url_for_sample and self = alice and pw = "password alice"
      and tok = "Some ''AAAAAAAAAAAAAAAAAAAAAAAAAAAAAAAA''" and te = "Some (datetime_of 100000000)"] z
  have ni: "to_dict url_for_sample alice_zero = to_dict url_for_sample alice"
    by simp
  from full ja jb ni show ?thesis by simp
qed

text \<open>
  C10. For a user whose job_title is the empty string, \<open>to_dict\<close> reports "unknown": the
  substitution follows the truth value of the field, and the empty string is falsy.
\<close>

theorem to_dict_empty_job_title:
  "get_item (to_dict url_for (self\<lparr>job_title := Some []\<rparr>)) ''job_title'' = Some (PStr ''unknown'')
   \<and> get_item (to_dict url_for self) ''job_title'' =
       Some (if truthy (opt_str (job_title self)) then opt_str (job_title self)
             else PStr ''unknown'')
   \<and> truthy (opt_str (Some [])) = False"
  by (simp add: to_dict_def get_item_def)

section \<open>is_admin\<close>

lemma is_admin_loop_iff:
  "is_admin_loop admin gs = (if \<exists>g\<in>set gs. group_name g = admin then PBool True else PNone)"
  by (induction gs) auto

lemma set_user_flicket_groups:
  "user_id user = Some i \<Longrightarrow>
   set (user_flicket_groups db user) =
     {g \<in> set (flicket_group db). (i, group_id g) \<in> set (flicket_groups db)}"
  by (auto simp: user_flicket_groups_def filter_by_def split: if_splits)

text \<open>
  C5 (as amended). When the re-fetch by id finds the user's row, with id \<open>i\<close>, \<open>is_admin\<close>
  returns \<open>True\<close> exactly when some group joined to \<open>i\<close> through the join table has the
  configured admin-group name, and otherwise falls off the loop and returns \<open>None\<close>, which
  is false as a truth value; this for every content of the group and join tables. When the
  re-fetch finds no row, as for a user that has not been stored, \<open>is_admin\<close> raises
  \<open>AttributeError\<close>.
\<close>

theorem is_admin_iff_member:
  "(first (filter_by user_id (user_id self) (flicket_users db)) = Some user
      \<and> user_id user = Some i \<longrightarrow>
      is_admin ADMIN_GROUP_NAME db self =
        Inr (if \<exists>g\<in>set (flicket_group db).
                  (i, group_id g) \<in> set (flicket_groups db) \<and> group_name g = ADMIN_GROUP_NAME
             then PBool True else PNone)
      \<and> (case is_admin ADMIN_GROUP_NAME db self of Inl err \<Rightarrow> False | Inr r \<Rightarrow> truthy r) =
          (\<exists>g\<in>set (flicket_group db).
              (i, group_id g) \<in> set (flicket_groups db) \<and> group_name g = ADMIN_GROUP_NAME))
   \<and> (first (filter_by user_id (user_id self) (flicket_users db)) = None \<longrightarrow>
        is_admin ADMIN_GROUP_NAME db self = Inl AttributeError)"
proof -
  have found: "is_admin ADMIN_GROUP_NAME db self =
        Inr (if \<exists>g\<in>set (flicket_group db).
                  (i, group_id g) \<in> set (flicket_groups db) \<and> group_name g = ADMIN_GROUP_NAME
             then PBool True else PNone)
      \<and> (case is_admin ADMIN_GROUP_NAME db self of Inl err \<Rightarrow> False | Inr r \<Rightarrow> truthy r) =
          (\<exists>g\<in>set (flicket_group db).
              (i, group_id g) \<in> set (flicket_groups db) \<and> group_name g = ADMIN_GROUP_NAME)"
    if row: "first (filter_by user_id (user_id self) (flicket_users db)) = Some user"
      and uid: "user_id user = Some i"
  proof -
    have "(\<exists>g\<in>set (user_flicket_groups db user). group_name g = ADMIN_GROUP_NAME) =
          (\<exists>g\<in>set (flicket_group db).
              (i, group_id g) \<in> set (flicket_groups db) \<and> group_name g = ADMIN_GROUP_NAME)"
      by (auto simp: set_user_flicket_groups [OF uid])
    with row show ?thesis
      by (simp add: is_admin_def is_admin_loop_iff)
  qed
  have missing: "is_admin ADMIN_GROUP_NAME db self = Inl AttributeError"
    if "first (filter_by user_id (user_id self) (flicket_users db)) = None"
    using that by (simp add: is_admin_def)
  from found missing show ?thesis by blast
qed

theorem is_admin_iff_member_witness:
  "is_admin ''flicket_admin'' group_db alice = Inr (PBool True)
   \<and> is_admin ''flicket_admin'' group_db bob = Inr PNone
   \<and> is_admin ''flicket_admin'' (group_db\<lparr>flicket_groups := []\<rparr>) alice = Inr PNone
   \<and> is_admin ''flicket_admin'' (group_db\<lparr>flicket_users := [bob]\<rparr>) alice = Inl AttributeError"
proof -
  have ra: "first (filter_by user_id (user_id alice) (flicket_users group_db)) = Some alice"
    and rb: "first (filter_by user_id (user_id bob) (flicket_users group_db)) = Some bob"
    and r0: "first (filter_by user_id (user_id alice)
                (flicket_users (group_db\<lparr>flicket_groups := []\<rparr>))) = Some alice"
    and rn: "first (filter_by user_id (user_id alice)
                (flicket_users (group_db\<lparr>flicket_users := [bob]\<rparr>))) = None"
    by (simp_all add: group_db_def first_def filter_by_def alice_def bob_def FlicketUser_init_def)
  have ia: "user_id alice = Some 1" and ib: "user_id bob = Some 2"
    by (simp_all add: alice_def bob_def FlicketUser_init_def)
  note th = is_admin_iff_member [where ADMIN_GROUP_NAME = "''flicket_admin''"]
  from th [where self = alice and db = group_db and user = alice and i = 1] ra ia
  have a: "is_admin ''flicket_admin'' group_db alice = Inr (PBool True)"
    by (simp add: group_db_def)
  from th [where self = bob and db = group_db and user = bob and i = 2] rb ib
  have b: "is_admin ''flicket_admin'' group_db bob = Inr PNone"
    by (simp add: group_db_def)
  from th [where self = alice and db = "group_db\<lparr>flicket_groups := []\<rparr>" and user = alice
      and i = 1] r0 ia
  have c: "is_admin ''flicket_admin'' (group_db\<lparr>flicket_groups := []\<rparr>) alice = Inr PNone"
    by (simp add: group_db_def)
  from th [where self = alice and db = "group_db\<lparr>flicket_users := [bob]\<rparr>"] rn
  have d: "is_admin ''flicket_admin'' (group_db\<lparr>flicket_users := [bob]\<rparr>) alice =
      Inl AttributeError"
    by simp
  from a b c d show ?thesis by simp
qed

text \<open>
  A user just built by the constructor has no id and no row: the re-fetch yields \<open>None\<close>
  and \<open>is_admin\<close> raises instead of evaluating to false.
\<close>

theorem is_admin_unstored_user_counterexample:
  "user_id dave = None
   \<and> is_admin ''flicket_admin'' group_db dave = Inl AttributeError"
  by (simp add: is_admin_def first_def filter_by_def group_db_def dave_def alice_def bob_def
      FlicketUser_init_def)

section \<open>check_password\<close>

text \<open>
  C4 (as amended). \<open>check_password\<close> looks the row up by \<open>self.username\<close> and reads nothing
  else of \<open>self\<close>; it is a query, a function of the tables that returns a result only.
  With no such row it returns false. With a row, it returns true exactly when hashing the
  plaintext with the stored hash as salt reproduces the stored hash, and false exactly when
  the hash is a different digest. Hence for a user whose stored hash is reproduced from
  \<open>P\<close>, \<open>check_password(P)\<close> is true; and \<open>check_password(P + "x")\<close> is false only if the
  hash tells \<open>P + "x"\<close> from \<open>P\<close>: where the primitive gives both the same result, the two
  calls return the same.
\<close>

theorem check_password_rehash:
  "(first (filter_by username (username self) (flicket_users db)) = None \<longrightarrow>
      check_password hashpw db self pw = Inr False)
   \<and> (first (filter_by username (username self) (flicket_users db)) = Some row \<longrightarrow>
        (check_password hashpw db self pw = Inr True) =
          (hashpw (encode_utf8 pw) (password row) = Inr (password row))
        \<and> (check_password hashpw db self pw = Inr False) =
          (\<exists>h. hashpw (encode_utf8 pw) (password row) = Inr h \<and> h \<noteq> password row)
        \<and> (hashpw (encode_utf8 (pw @ ''x'')) (password row) = hashpw (encode_utf8 pw) (password row)
             \<longrightarrow> check_password hashpw db self (pw @ ''x'') = check_password hashpw db self pw))"
proof -
  have none: "check_password hashpw db self pw = Inr False"
    if "first (filter_by username (username self) (flicket_users db)) = None"
  proof -
    from that have "filter_by username (username self) (flicket_users db) = []"
      by (simp add: first_def split: list.splits)
    then show ?thesis
      by (simp add: check_password_def count_rows_def)
  qed
  have some: "check_password hashpw db self p =
      (case hashpw (encode_utf8 p) (password row) of
         Inl e \<Rightarrow> Inl e
       | Inr h \<Rightarrow> if h \<noteq> password row then Inr False else Inr True)"
    if "first (filter_by username (username self) (flicket_users db)) = Some row" for p
  proof -
    from that have "filter_by username (username self) (flicket_users db) \<noteq> []"
      by (auto simp: first_def)
    with that show ?thesis
      by (simp add: check_password_def count_rows_def Let_def)
  qed
  show ?thesis
    using none by (auto simp: some split: sum.splits)
qed

theorem check_password_rehash_witness:
  "check_password hashpw72 carol_db carol long_password = Inr True
   \<and> check_password hashpw72 carol_db carol ''secret'' = Inr False
   \<and> check_password hashpw72 carol_db alice long_password = Inr False"
proof -
  have row: "first (filter_by username (username carol) (flicket_users carol_db)) = Some carol"
    by (simp add: carol_db_def first_def filter_by_def)
  have norow: "first (filter_by username (username alice) (flicket_users carol_db)) = None"
    by (simp add: carol_db_def first_def filter_by_def carol_def alice_def FlicketUser_init_def)
  have stored: "password carol = salt29 @ encode_utf8 long_password"
    by (simp add: carol_def FlicketUser_init_def)
  have h1: "hashpw72 (encode_utf8 long_password) (password carol) = Inr (password carol)"
    by (simp add: stored hashpw72_def salt29_def long_password_def encode_utf8_def)
  have h2: "hashpw72 (encode_utf8 ''secret'') (password carol) = Inr (salt29 @ encode_utf8 ''secret'')"
    by (simp add: stored hashpw72_def salt29_def encode_utf8_def)
  have ne: "salt29 @ encode_utf8 ''secret'' \<noteq> password carol"
  proof
    assume "salt29 @ encode_utf8 ''secret'' = password carol"
    then have "length (salt29 @ encode_utf8 ''secret'') = length (password carol)"
      by (rule arg_cong)
    then show False
      by (simp add: stored encode_utf8_def long_password_def)
  qed
  note th = check_password_rehash [where hashpw = hashpw72 and db = carol_db]
  from th [where self = carol and row = carol and pw = long_password] row h1
  have a: "check_password hashpw72 carol_db carol long_password = Inr True"
    by simp
  from th [where self = carol and row = carol and pw = "''secret''"] row h2 ne
  have b: "check_password hashpw72 carol_db carol ''secret'' = Inr False"
    by simp
  from th [where self = alice and pw = long_password] norow
  have c: "check_password hashpw72 carol_db alice long_password = Inr False"
    by simp
  from a b c show ?thesis by simp
qed

text \<open>
  A 72-byte password \<open>P\<close>, stored as the hash of \<open>P\<close>; the hash primitive reads 72 bytes.
  \<open>check_password(P + "x")\<close> returns true.
\<close>

theorem check_password_truncation_counterexample:
  "password carol = salt29 @ encode_utf8 long_password
   \<and> hashpw72 (encode_utf8 long_password) salt29 = Inr (password carol)
   \<and> check_password hashpw72 carol_db carol (long_password @ ''x'') = Inr True"
  by (simp add: check_password_def carol_db_def filter_by_def first_def count_rows_def
      carol_def FlicketUser_init_def hashpw72_def salt29_def long_password_def encode_utf8_def)

section \<open>to_collection_dict\<close>

lemma paginate_25_by_10:
  assumes "length query = 25" and "1 \<le> page"
  shows "paginate query page 10 =
           \<lparr>pg_page = page, pg_per_page = 10, pg_total = 25,
            pg_items = take 10 (drop (nat ((page - 1) * 10)) query)\<rparr>"
proof -
  have "page = 1 \<Longrightarrow> \<not> int (length (take 10 (drop (nat ((page - 1) * 10)) query))) < 10"
    using assms(1) by simp
  with assms show ?thesis
    by (auto simp: paginate_def Let_def count_rows_def)
qed

text \<open>
  C7 (as amended). For a query of 25 rows, \<open>per_page = 10\<close> and a page number from 1 on,
  \<open>to_collection_dict\<close> returns the page's items, each mapped by the item's own \<open>to_dict\<close>,
  \<open>_meta\<close> with the given page, per_page, 3 total pages and 25 total items, and \<open>_links\<close>
  whose \<open>next\<close> is a URL for page + 1 when page < 3 and \<open>None\<close> otherwise, and whose
  \<open>prev\<close> is a URL for page - 1 when page > 1 and \<open>None\<close> otherwise. So \<open>next\<close> is absent
  exactly when page + 1 does not exist, and up to page 4 \<open>prev\<close> is absent exactly when
  page - 1 does not exist; from page 5 on \<open>prev\<close> is populated although page - 1 does not
  exist.
\<close>

theorem to_collection_dict_25_by_10:
  assumes len: "length query = 25" and page: "1 \<le> page"
  shows "to_collection_dict item_to_dict url_for query page 10 endpoint kwargs =
     PDict
       [(''items'', PList (map item_to_dict (take 10 (drop (nat ((page - 1) * 10)) query)))),
        (''_meta'', PDict [(''page'', PInt page), (''per_page'', PInt 10),
                           (''total_pages'', PInt 3), (''total_items'', PInt 25)]),
        (''_links'',
           PDict [(''self'', PStr (url_for endpoint
                                    ([(''page'', PInt page), (''per_page'', PInt 10)] @ kwargs))),
                  (''next'', if page < 3
                             then PStr (url_for endpoint
                                          ([(''page'', PInt (page + 1)), (''per_page'', PInt 10)]
                                           @ kwargs))
                             else PNone),
                  (''prev'', if 1 < page
                             then PStr (url_for endpoint
                                          ([(''page'', PInt (page - 1)), (''per_page'', PInt 10)]
                                           @ kwargs))
                             else PNone)])]
     \<and> (page < 3) = page_exists 3 (page + 1)
     \<and> (page \<le> 4 \<longrightarrow> (1 < page) = page_exists 3 (page - 1))
     \<and> (4 < page \<longrightarrow> 1 < page \<and> \<not> page_exists 3 (page - 1))"
proof -
  have "pages (paginate query page 10) = 3"
    by (simp add: paginate_25_by_10 [OF len page] pages_def)
  then show ?thesis
    using page
    by (auto simp: to_collection_dict_def Let_def paginate_25_by_10 [OF len page]
        has_next_def has_prev_def page_exists_def)
qed

theorem to_collection_dict_25_by_10_witness:
  "to_collection_dict PInt url_for_sample query25 1 10 ''users'' [] =
     PDict
       [(''items'', PList [PInt 1, PInt 2, PInt 3, PInt 4, PInt 5, PInt 6, PInt 7, PInt 8,
                           PInt 9, PInt 10]),
        (''_meta'', PDict [(''page'', PInt 1), (''per_page'', PInt 10),
                           (''total_pages'', PInt 3), (''total_items'', PInt 25)]),
        (''_links'',
           PDict [(''self'', PStr (url_for_sample ''users''
                                    [(''page'', PInt 1), (''per_page'', PInt 10)])),
                  (''next'', PStr (url_for_sample ''users''
                                    [(''page'', PInt 2), (''per_page'', PInt 10)])),
                  (''prev'', PNone)])]
   \<and> to_collection_dict PInt url_for_sample query25 3 10 ''users'' [] =
     PDict
       [(''items'', PList [PInt 21, PInt 22, PInt 23, PInt 24, PInt 25]),
        (''_meta'', PDict [(''page'', PInt 3), (''per_page'', PInt 10),
                           (''total_pages'', PInt 3), (''total_items'', PInt 25)]),
        (''_links'',
           PDict [(''self'', PStr (url_for_sample ''users''
                                    [(''page'', PInt 3), (''per_page'', PInt 10)])),
                  (''next'', PNone),
                  (''prev'', PStr (url_for_sample ''users''
                                    [(''page'', PInt 2), (''per_page'', PInt 10)]))])]"
proof -
  have len: "length query25 = 25"
    by (simp add: query25_def)
  have p1: "(1::int) \<le> 1" and p3: "(1::int) \<le> 3"
    by simp_all
  from to_collection_dict_25_by_10 [OF len p1, of PInt url_for_sample "''users''" "[]"]
  have a: "to_collection_dict PInt url_for_sample query25 1 10 ''users'' [] =
     PDict
       [(''items'', PList [PInt 1, PInt 2, PInt 3, PInt 4, PInt 5, PInt 6, PInt 7, PInt 8,
                           PInt 9, PInt 10]),
        (''_meta'', PDict [(''page'', PInt 1), (''per_page'', PInt 10),
                           (''total_pages'', PInt 3), (''total_items'', PInt 25)]),
        (''_links'',
           PDict [(''self'', PStr (url_for_sample ''users''
                                    [(''page'', PInt 1), (''per_page'', PInt 10)])),
                  (''next'', PStr (url_for_sample ''users''
                                    [(''page'', PInt 2), (''per_page'', PInt 10)])),
                  (''prev'', PNone)])]"
    by (simp add: query25_def)
  from to_collection_dict_25_by_10 [OF len p3, of PInt url_for_sample "''users''" "[]"]
  have b: "to_collection_dict PInt url_for_sample query25 3 10 ''users'' [] =
     PDict
       [(''items'', PList [PInt 21, PInt 22, PInt 23, PInt 24, PInt 25]),
        (''_meta'', PDict [(''page'', PInt 3), (''per_page'', PInt 10),
                           (''total_pages'', PInt 3), (''total_items'', PInt 25)]),
        (''_links'',
           PDict [(''self'', PStr (url_for_sample ''users''
                                    [(''page'', PInt 3), (''per_page'', PInt 10)])),
                  (''next'', PNone),
                  (''prev'', PStr (url_for_sample ''users''
                                    [(''page'', PInt 2), (''per_page'', PInt 10)]))])]"
    by (simp add: query25_def)
  from a b show ?thesis by simp
qed

text \<open>
  Page 5 of 3: \<open>prev\<close> is a URL for page 4, which does not exist.
\<close>

theorem to_collection_dict_page_5_counterexample:
  "to_collection_dict PInt url_for_sample query25 5 10 ''users'' [] =
     PDict
       [(''items'', PList []),
        (''_meta'', PDict [(''page'', PInt 5), (''per_page'', PInt 10),
                           (''total_pages'', PInt 3), (''total_items'', PInt 25)]),
        (''_links'',
           PDict [(''self'', PStr (url_for_sample ''users''
                                    [(''page'', PInt 5), (''per_page'', PInt 10)])),
                  (''next'', PNone),
                  (''prev'', PStr (url_for_sample ''users''
                                    [(''page'', PInt 4), (''per_page'', PInt 10)]))])]
   \<and> \<not> page_exists 3 4"
  by (simp add: to_collection_dict_def Let_def paginate_def pages_def has_next_def has_prev_def
      count_rows_def query25_def page_exists_def)

end
